theory Spec2Isabelle
  imports Main "HOL-Library.Sublist" "HOL-Library.Word"
begin

section \<open>Go strings\<close>

text \<open>
  A Go string is a sequence of bytes; \<^typ>\<open>string\<close> (a list of 8-bit characters) models
  both \<^verbatim>\<open>string\<close> and \<^verbatim>\<open>[]byte\<close>, so that the conversion \<^verbatim>\<open>string(peek)\<close> is the
  identity. The functions of package \<^verbatim>\<open>strings\<close> that the program calls:
\<close>

definition HasPrefix :: "string \<Rightarrow> string \<Rightarrow> bool" where
  "HasPrefix s p = prefix p s"

definition HasSuffix :: "string \<Rightarrow> string \<Rightarrow> bool" where
  "HasSuffix s suf = suffix suf s"

definition TrimSuffix :: "string \<Rightarrow> string \<Rightarrow> string" where
  "TrimSuffix s suf = (if HasSuffix s suf then take (length s - length suf) s else s)"

fun Contains :: "string \<Rightarrow> string \<Rightarrow> bool" where
  "Contains [] sub = (sub = [])"
| "Contains (c # s) sub = (prefix sub (c # s) \<or> Contains s sub)"

section \<open>The DNS cache (package dns)\<close>

text \<open>
  \<^verbatim>\<open>type Cache struct { mu; entries map[string]string; rdnsCache map[string]string }\<close>.
  The lock is not part of the sequential model: every method below is one critical
  section or, for \<^verbatim>\<open>GetWithRDNS\<close>, a sequence of them (see the step model further down).
\<close>

record Cache =
  entries :: "string \<rightharpoonup> string"
  rdnsCache :: "string \<rightharpoonup> string"

definition NewCache :: Cache where
  "NewCache = \<lparr>entries = Map.empty, rdnsCache = Map.empty\<rparr>"

definition Add :: "Cache \<Rightarrow> string \<Rightarrow> string \<Rightarrow> Cache" where
  "Add c ip fqdn = c\<lparr>entries := (entries c)(ip \<mapsto> TrimSuffix fqdn ''.'')\<rparr>"

text \<open>\<^verbatim>\<open>fqdn, ok := c.entries[ip]\<close>: a missing key gives the zero value and \<^verbatim>\<open>false\<close>.\<close>

definition Get :: "Cache \<Rightarrow> string \<Rightarrow> string \<times> bool" where
  "Get c ip = (case entries c ip of Some fqdn \<Rightarrow> (fqdn, True) | None \<Rightarrow> ('''', False))"

definition Size :: "Cache \<Rightarrow> nat" where
  "Size c = card (dom (entries c))"

text \<open>
  \<^verbatim>\<open>net.DefaultResolver.LookupAddr(ctx, ip)\<close> is the network: the model takes it as a
  parameter, \<open>None\<close> for an error (the two-second timeout included) and \<open>Some names\<close>
  otherwise. \<open>GetWithRDNS\<close> returns the hostname, the cache as the call leaves it, and the
  addresses for which the call ran a reverse lookup (none or one).
\<close>

type_synonym resolver = "string \<Rightarrow> string list option"

definition GetWithRDNS :: "resolver \<Rightarrow> Cache \<Rightarrow> string \<Rightarrow> string \<times> Cache \<times> string list" where
  "GetWithRDNS LookupAddr c ip =
     (case Get c ip of
        (fqdn, True) \<Rightarrow> (fqdn, c, [])
      | (_, False) \<Rightarrow>
          (case rdnsCache c ip of
             Some hostname \<Rightarrow> (hostname, c, [])
           | None \<Rightarrow>
               (case LookupAddr ip of
                  None \<Rightarrow> ('''', c\<lparr>rdnsCache := (rdnsCache c)(ip \<mapsto> '''')\<rparr>, [ip])
                | Some names \<Rightarrow>
                    if length names = 0
                    then ('''', c\<lparr>rdnsCache := (rdnsCache c)(ip \<mapsto> '''')\<rparr>, [ip])
                    else
                      let hostname = TrimSuffix (hd names) ''.''
                      in (hostname, c\<lparr>rdnsCache := (rdnsCache c)(ip \<mapsto> hostname)\<rparr>, [ip]))))"

text \<open>
  A sequence of \<open>GetWithRDNS\<close> calls, each with the resolver the network offers at that
  moment: the cache after the last call and all the lookups run.
\<close>

fun resolve_all :: "Cache \<Rightarrow> (resolver \<times> string) list \<Rightarrow> string list \<times> Cache \<times> string list" where
  "resolve_all c [] = ([], c, [])"
| "resolve_all c ((L, ip) # rest) =
     (case GetWithRDNS L c ip of
        (h, c', looked) \<Rightarrow>
          (case resolve_all c' rest of
             (hs, c'', looked') \<Rightarrow> (h # hs, c'', looked @ looked')))"

subsection \<open>GetWithRDNS step by step\<close>

text \<open>
  \<open>GetWithRDNS\<close> holds the lock three times and not in between: while it reads
  \<open>entries\<close> (inside \<open>Get\<close>), while it reads \<open>rdnsCache\<close>, and while it stores the result.
  The reverse lookup runs with the lock released. A caller is at one of these points;
  another caller may run between any two of them.
\<close>

datatype pc = AtGet | AtRdns | AtLookup | AtStore string | Returned string

record world =
  cache :: Cache
  callers :: "(string \<times> pc) list"
  lookups :: "string list"

fun caller_step :: "resolver \<Rightarrow> string \<Rightarrow> pc \<Rightarrow> Cache \<Rightarrow> pc \<times> Cache \<times> string list" where
  "caller_step L ip AtGet c =
     (case Get c ip of (fqdn, True) \<Rightarrow> (Returned fqdn, c, []) | (_, False) \<Rightarrow> (AtRdns, c, []))"
| "caller_step L ip AtRdns c =
     (case rdnsCache c ip of Some hostname \<Rightarrow> (Returned hostname, c, []) | None \<Rightarrow> (AtLookup, c, []))"
| "caller_step L ip AtLookup c =
     (case L ip of
        None \<Rightarrow> (AtStore '''', c, [ip])
      | Some names \<Rightarrow>
          if length names = 0 then (AtStore '''', c, [ip])
          else (AtStore (TrimSuffix (hd names) ''.''), c, [ip]))"
| "caller_step L ip (AtStore hostname) c =
     (Returned hostname, c\<lparr>rdnsCache := (rdnsCache c)(ip \<mapsto> hostname)\<rparr>, [])"
| "caller_step L ip (Returned hostname) c = (Returned hostname, c, [])"

text \<open>The scheduler lets caller \<open>i\<close> take its next step.\<close>

definition sched_step :: "resolver \<Rightarrow> nat \<Rightarrow> world \<Rightarrow> world" where
  "sched_step L i w =
     (if i < length (callers w)
      then (case callers w ! i of
              (ip, p) \<Rightarrow>
                (case caller_step L ip p (cache w) of
                   (p', c', looked) \<Rightarrow>
                     \<lparr>cache = c', callers = (callers w)[i := (ip, p')], lookups = lookups w @ looked\<rparr>))
      else w)"

fun exec :: "resolver \<Rightarrow> nat list \<Rightarrow> world \<Rightarrow> world" where
  "exec L [] w = w"
| "exec L (i # sched) w = exec L sched (sched_step L i w)"

text \<open>The combined lookup \<open>known\<close>: what an address resolves to without the network.\<close>

definition known :: "Cache \<Rightarrow> string \<Rightarrow> string option" where
  "known c ip = (case entries c ip of Some fqdn \<Rightarrow> Some fqdn | None \<Rightarrow> rdnsCache c ip)"

section \<open>The packet loop of main: which segments are reassembled\<close>

text \<open>
  \<^verbatim>\<open>layers.TCP\<close> carries the two ports as \<^verbatim>\<open>TCPPort\<close>, an unsigned 16-bit number.
\<close>

record TCP =
  SrcPort :: "16 word"
  DstPort :: "16 word"

text \<open>\<^verbatim>\<open>strconv.Itoa\<close> on a number that is not negative.\<close>

fun Itoa :: "nat \<Rightarrow> string" where
  "Itoa n =
     (if n < 10 then [''0123456789'' ! n]
      else Itoa (n div 10) @ [''0123456789'' ! (n mod 10)])"

declare Itoa.simps [simp del]

text \<open>
  \<^verbatim>\<open>tcpLayer.SrcPort.String()\<close> is gopacket's \<^verbatim>\<open>layers.TCPPort.String\<close>, outside the
  repository. It returns \<^verbatim>\<open>fmt.Sprintf("%d(%s)", a, name)\<close> when the table
  \<^verbatim>\<open>TCPPortNames\<close> has a name for the port and \<^verbatim>\<open>strconv.Itoa(int(a))\<close> otherwise. The table
  is a parameter of the model.
\<close>

definition TCPPort_String :: "(16 word \<rightharpoonup> string) \<Rightarrow> 16 word \<Rightarrow> string" where
  "TCPPort_String names a =
     (case names a of
        Some name \<Rightarrow> Itoa (unat a) @ ''('' @ name @ '')''
      | None \<Rightarrow> Itoa (unat a))"

text \<open>
  The entries of gopacket's table (the IANA service names) for ports that the program
  lists; the full table has some thousands of entries.
\<close>

definition TCPPortNames :: "16 word \<rightharpoonup> string" where
  "TCPPortNames =
     map_of [(22, ''ssh''), (23, ''telnet''), (25, ''smtp''), (53, ''domain''), (80, ''http''),
             (110, ''pop3''), (143, ''imap''), (443, ''https''), (993, ''imaps''), (995, ''pop3s'')]"

text \<open>The closure \<^verbatim>\<open>isHTTPPort\<close> of \<^verbatim>\<open>main\<close>: a switch on the port's string.\<close>

definition isHTTPPort :: "string \<Rightarrow> bool" where
  "isHTTPPort port =
     (if port \<in> set [''80'', ''8080'', ''8000'', ''8888'', ''3000'', ''5000'', ''9000''] then True
      else if port \<in> set [''443'', ''8443''] then True
      else if port \<in> set [''22'', ''23'', ''25'', ''53'', ''110'', ''143'', ''993'', ''995''] then False
      else True)"

text \<open>
  \<^verbatim>\<open>if isHTTPPort(srcPort) || isHTTPPort(dstPort) { assembler.AssembleWithContext(...) }\<close>:
  whether the segment is handed to stream reassembly.
\<close>

definition assembled :: "(16 word \<rightharpoonup> string) \<Rightarrow> TCP \<Rightarrow> bool" where
  "assembled names tcpLayer =
     (let srcPort = TCPPort_String names (SrcPort tcpLayer);
          dstPort = TCPPort_String names (DstPort tcpLayer)
      in isHTTPPort srcPort \<or> isHTTPPort dstPort)"

section \<open>The HTTP stream of cmd/pcap-analyzer\<close>

text \<open>
  \<^verbatim>\<open>HTTPStream\<close> holds the two flows; the program only ever reads the string forms of
  their endpoints (\<^verbatim>\<open>h.net.Src().String()\<close>, \<^verbatim>\<open>h.transport.Dst().String()\<close>, ...). A
  transport endpoint prints as the bare decimal port.
\<close>

record Flow =
  net_Src :: string
  net_Dst :: string
  transport_Src :: string
  transport_Dst :: string

text \<open>
  What \<^verbatim>\<open>run\<close> reads from. \<open>Buffer\<close> is \<^verbatim>\<open>h.r.Buffer\<close>: the bytes \<^verbatim>\<open>ReassembledSG\<close> has
  written and nobody has read. \<open>buffered\<close> is the content of \<^verbatim>\<open>buf\<close>, the \<^verbatim>\<open>bufio.Reader\<close>
  around \<^verbatim>\<open>h.r\<close>: bytes read from \<open>Buffer\<close> and not yet handed out. \<^verbatim>\<open>ReassembledSG\<close> runs
  in the packet loop's goroutine while \<^verbatim>\<open>run\<close> sleeps; \<open>incoming\<close> lists the writes still to
  come, one for each later sleep of \<^verbatim>\<open>run\<close>.
\<close>

record reader =
  Buffer :: string
  buffered :: string
  incoming :: "string list"

definition Sleep :: "reader \<Rightarrow> reader" where
  "Sleep r =
     (case incoming r of
        [] \<Rightarrow> r
      | data # rest \<Rightarrow> r\<lparr>Buffer := Buffer r @ data, incoming := rest\<rparr>)"

text \<open>
  \<^verbatim>\<open>bufio.Reader\<close> with its default buffer of 4096 bytes over a \<^verbatim>\<open>bytes.Buffer\<close>, whose
  \<^verbatim>\<open>Read\<close> hands out what it holds, up to the space offered, and reports \<^verbatim>\<open>io.EOF\<close> when it
  holds nothing. \<open>fill\<close> is one \<^verbatim>\<open>b.fill()\<close>. \<^verbatim>\<open>Peek(n)\<close> fills until \<open>n\<close> bytes are buffered
  or the read fails; a second \<open>fill\<close> finds \<open>Buffer\<close> empty, so one \<open>fill\<close> gives the state
  \<^verbatim>\<open>Peek\<close> leaves. The flag is \<^verbatim>\<open>err == nil\<close>.
\<close>

definition fill :: "reader \<Rightarrow> reader" where
  "fill r =
     (let k = 4096 - length (buffered r)
      in r\<lparr>buffered := buffered r @ take k (Buffer r), Buffer := drop k (Buffer r)\<rparr>)"

definition Peek :: "nat \<Rightarrow> reader \<Rightarrow> (string \<times> bool) \<times> reader" where
  "Peek n r =
     (if n \<le> length (buffered r) then ((take n (buffered r), True), r)
      else
        let r' = fill r
        in if n \<le> length (buffered r') then ((take n (buffered r'), True), r')
           else ((buffered r', False), r'))"

subsection \<open>The messages of net/http\<close>

text \<open>
  The fields of \<^verbatim>\<open>http.Request\<close> and \<^verbatim>\<open>http.Response\<close> that the program reads. The body is
  an \<^verbatim>\<open>io.ReadCloser\<close> of the library; its type \<open>'b\<close> is left open.
\<close>

record URL =
  Path :: string
  RawQuery :: string

record 'b Request =
  Method :: string
  URL :: URL
  Proto :: string
  Host :: string
  Header :: "string \<rightharpoonup> string list"
  ContentLength :: int
  Body :: "'b option"

record 'b Response =
  Status :: string
  resp_Proto :: string
  resp_Header :: "string \<rightharpoonup> string list"
  resp_Body :: "'b option"

text \<open>
  The library calls of \<^verbatim>\<open>run\<close> and of the two print functions, as parameters:
  \<^verbatim>\<open>http.ReadRequest(buf)\<close> and \<^verbatim>\<open>http.ReadResponse(buf, dummyReq)\<close> (\<open>None\<close> for an error)
  read from the reader and leave it changed; \<^verbatim>\<open>Body.Read(p)\<close> gets the length of \<open>p\<close> and
  returns the bytes read; \<^verbatim>\<open>Body.Close()\<close>; and \<^verbatim>\<open>io.ReadAll\<close> on a \<^verbatim>\<open>gzip.Reader\<close> over the
  data (\<open>None\<close> when \<^verbatim>\<open>gzip.NewReader\<close> or the read returns an error).
\<close>

record 'b netlib =
  ReadRequest :: "reader \<Rightarrow> 'b Request option \<times> reader"
  ReadResponse :: "reader \<Rightarrow> 'b Response option \<times> reader"
  Body_Read :: "'b \<Rightarrow> nat \<Rightarrow> reader \<Rightarrow> string \<times> 'b \<times> reader"
  Body_Close :: "'b \<Rightarrow> reader \<Rightarrow> reader"
  gzip_ReadAll :: "string \<Rightarrow> string option"

text \<open>\<^verbatim>\<open>Header.Get(key)\<close> for a key in canonical form: the first value, or the empty string.\<close>

definition Header_Get :: "(string \<rightharpoonup> string list) \<Rightarrow> string \<Rightarrow> string" where
  "Header_Get h key = (case h key of None \<Rightarrow> '''' | Some [] \<Rightarrow> '''' | Some (v # _) \<Rightarrow> v)"

definition decompressGzip :: "'b netlib \<Rightarrow> string \<Rightarrow> string option" where
  "decompressGzip lib data = gzip_ReadAll lib data"

subsection \<open>What is printed\<close>

text \<open>
  The print functions write text; the model keeps the values printed. An endpoint is
  its address, port and name (empty when none is known). A body is printed with its
  length, the note in parentheses and the bytes. The time of printing is left out.
\<close>

datatype body_note = Plain | DecompressedFromGzip | GzipDecompressionFailed

type_synonym body_out = "(nat \<times> body_note \<times> string) option"

record RequestOut =
  req_Source :: "string \<times> string \<times> string"
  req_Destination :: "string \<times> string \<times> string"
  req_Method :: string
  req_URL :: string
  req_Proto :: string
  req_Host :: string
  req_Headers :: "string \<rightharpoonup> string list"
  req_ContentLength :: "int option"
  req_BodyOut :: body_out

record ResponseOut =
  resp_Source :: "string \<times> string \<times> string"
  resp_Destination :: "string \<times> string \<times> string"
  resp_Status :: string
  resp_ProtoOut :: string
  resp_Headers :: "string \<rightharpoonup> string list"
  resp_BodyOut :: body_out

datatype printed = HTTP_Request RequestOut | HTTP_Response ResponseOut

text \<open>
  The block \<^verbatim>\<open>if req.Body != nil { body := make([]byte, 1024*1024); n, _ := req.Body.Read(body);
  if n > 0 { ... }; req.Body.Close() }\<close>, the same in \<^verbatim>\<open>printHTTPRequest\<close> and
  \<^verbatim>\<open>printHTTPResponse\<close> but for the word printed. The bytes land in \<^verbatim>\<open>body\<close>, which has
  \<open>1024 * 1024\<close> places, and \<^verbatim>\<open>bodyData\<close> is \<^verbatim>\<open>body[:n]\<close>.
\<close>

definition printBody ::
  "'b netlib \<Rightarrow> (string \<rightharpoonup> string list) \<Rightarrow> 'b option \<Rightarrow> reader \<Rightarrow> body_out \<times> reader" where
  "printBody lib header body r =
     (case body of
        None \<Rightarrow> (None, r)
      | Some b \<Rightarrow>
          (case Body_Read lib b (1024 * 1024) r of
             (d, b', r') \<Rightarrow>
               let bodyData = take (1024 * 1024) d;
                   n = length bodyData;
                   out =
                     (if n > 0 then
                        (if Header_Get header ''Content-Encoding'' = ''gzip'' then
                           (case decompressGzip lib bodyData of
                              Some decompressed \<Rightarrow>
                                Some (length decompressed, DecompressedFromGzip, decompressed)
                            | None \<Rightarrow> Some (n, GzipDecompressionFailed, bodyData))
                         else Some (n, Plain, bodyData))
                      else None)
               in (out, Body_Close lib b' r')))"

definition printHTTPRequest ::
  "'b netlib \<Rightarrow> Flow \<Rightarrow> Cache \<Rightarrow> 'b Request \<Rightarrow> reader \<Rightarrow> RequestOut \<times> reader" where
  "printHTTPRequest lib h dnsCache req r =
     (let srcIP = net_Src h;
          dstIP = net_Dst h;
          srcPort = transport_Src h;
          dstPort = transport_Dst h;
          srcFQDN = (case Get dnsCache srcIP of (fqdn, True) \<Rightarrow> fqdn | (_, False) \<Rightarrow> '''');
          dstFQDN = (case Get dnsCache dstIP of (fqdn, True) \<Rightarrow> fqdn | (_, False) \<Rightarrow> '''');
          protocol = (if dstPort = ''443'' \<or> dstPort = ''8443'' then ''https'' else ''http'');
          hostname = Host req;
          hostname =
            (if hostname = '''' then (if dstFQDN \<noteq> '''' then dstFQDN else dstIP) else hostname);
          hostname =
            (if (protocol = ''http'' \<and> dstPort \<noteq> ''80'') \<or> (protocol = ''https'' \<and> dstPort \<noteq> ''443'')
             then (if \<not> Contains hostname '':'' then hostname @ '':'' @ dstPort else hostname)
             else hostname);
          fullURL = protocol @ ''://'' @ hostname @ Path (URL req);
          fullURL =
            (if RawQuery (URL req) \<noteq> '''' then fullURL @ ''?'' @ RawQuery (URL req) else fullURL)
      in case printBody lib (Header req) (Body req) r of
           (bodyOut, r') \<Rightarrow>
             (\<lparr>req_Source = (srcIP, srcPort, srcFQDN),
               req_Destination = (dstIP, dstPort, dstFQDN),
               req_Method = Method req,
               req_URL = fullURL,
               req_Proto = Proto req,
               req_Host = Host req,
               req_Headers = Header req,
               req_ContentLength = (if ContentLength req > 0 then Some (ContentLength req) else None),
               req_BodyOut = bodyOut\<rparr>, r'))"

definition printHTTPResponse ::
  "'b netlib \<Rightarrow> Flow \<Rightarrow> Cache \<Rightarrow> 'b Response \<Rightarrow> reader \<Rightarrow> ResponseOut \<times> reader" where
  "printHTTPResponse lib h dnsCache resp r =
     (let srcIP = net_Src h;
          dstIP = net_Dst h;
          srcPort = transport_Src h;
          dstPort = transport_Dst h;
          srcFQDN = (case Get dnsCache srcIP of (fqdn, True) \<Rightarrow> fqdn | (_, False) \<Rightarrow> '''');
          dstFQDN = (case Get dnsCache dstIP of (fqdn, True) \<Rightarrow> fqdn | (_, False) \<Rightarrow> '''')
      in case printBody lib (resp_Header resp) (resp_Body resp) r of
           (bodyOut, r') \<Rightarrow>
             (\<lparr>resp_Source = (srcIP, srcPort, srcFQDN),
               resp_Destination = (dstIP, dstPort, dstFQDN),
               resp_Status = Status resp,
               resp_ProtoOut = resp_Proto resp,
               resp_Headers = resp_Header resp,
               resp_BodyOut = bodyOut\<rparr>, r'))"

subsection \<open>run\<close>

text \<open>
  The bytes delivered to the direction and not yet read when \<^verbatim>\<open>run\<close> starts: those in the
  buffer, then those of the writes to come.
\<close>

definition delivered :: "reader \<Rightarrow> string" where
  "delivered r = Buffer r @ concat (incoming r)"

text \<open>
  The two waiting loops at the head of \<^verbatim>\<open>run\<close>: up to 100 sleeps until the buffer holds
  something, then up to 10 sleeps until it has stopped growing above 100 bytes.
\<close>

fun wait_data :: "nat \<Rightarrow> reader \<Rightarrow> reader" where
  "wait_data 0 r = r"
| "wait_data (Suc i) r = (if length (Buffer r) > 0 then r else wait_data i (Sleep r))"

fun wait_grow :: "nat \<Rightarrow> nat \<Rightarrow> reader \<Rightarrow> reader" where
  "wait_grow 0 prevLen r = r"
| "wait_grow (Suc i) prevLen r =
     (let currentLen = length (Buffer r)
      in if currentLen = prevLen \<and> currentLen > 100 then r
         else wait_grow i currentLen (Sleep r))"

text \<open>
  The loop \<^verbatim>\<open>for { peek, err := buf.Peek(8); ... }\<close>. It has no bound of its own: the model
  counts its rounds down from \<open>fuel\<close> and answers \<open>None\<close> when they run out, \<open>Some\<close> of what
  was printed when the loop returns.
\<close>

fun run_loop :: "nat \<Rightarrow> 'b netlib \<Rightarrow> Flow \<Rightarrow> Cache \<Rightarrow> reader \<Rightarrow> printed list option" where
  "run_loop 0 lib h dnsCache r = None"
| "run_loop (Suc fuel) lib h dnsCache r =
     (case Peek 8 r of
        ((peek, False), r1) \<Rightarrow> Some []
      | ((peek, True), r1) \<Rightarrow>
          if length peek \<ge> 3 \<and> peek ! 0 = CHR 0x16 \<and> peek ! 1 = CHR 0x03 then Some []
          else if HasPrefix peek ''HTTP/'' then
            (case ReadResponse lib r1 of
               (None, r2) \<Rightarrow> run_loop fuel lib h dnsCache (Sleep r2)
             | (Some resp, r2) \<Rightarrow>
                 (case printHTTPResponse lib h dnsCache resp r2 of
                    (out, r3) \<Rightarrow>
                      map_option ((#) (HTTP_Response out)) (run_loop fuel lib h dnsCache r3)))
          else
            (case ReadRequest lib r1 of
               (None, r2) \<Rightarrow>
                 let r3 = Sleep r2
                 in if length (Buffer r3) > length (buffered r3)
                    then run_loop fuel lib h dnsCache r3
                    else Some []
             | (Some req, r2) \<Rightarrow>
                 (case printHTTPRequest lib h dnsCache req r2 of
                    (out, r3) \<Rightarrow>
                      map_option ((#) (HTTP_Request out)) (run_loop fuel lib h dnsCache r3))))"

text \<open>\<^verbatim>\<open>run\<close>: the waits, the check for TLS on the ports 443 and 8443, then the loop.\<close>

definition run :: "nat \<Rightarrow> 'b netlib \<Rightarrow> Flow \<Rightarrow> Cache \<Rightarrow> reader \<Rightarrow> printed list option" where
  "run fuel lib h dnsCache r0 =
     (let r1 = wait_data 100 r0
      in if length (Buffer r1) = 0 then Some []
         else
           let r2 = wait_grow 10 0 r1;
               dstPort = transport_Dst h;
               srcPort = transport_Src h
           in if (dstPort = ''443'' \<or> dstPort = ''8443'' \<or> srcPort = ''443'' \<or> srcPort = ''8443'')
                 \<and> length (Buffer r2) \<ge> 3
                 \<and> Buffer r2 ! 0 = CHR 0x16 \<and> Buffer r2 ! 1 = CHR 0x03
              then Some []
              else run_loop fuel lib h dnsCache (r2\<lparr>buffered := []\<rparr>))"

subsection \<open>Stream.printHTTPRequest of package http\<close>

text \<open>
  The print function of the \<^verbatim>\<open>Stream\<close> of package \<^verbatim>\<open>http\<close> resolves both addresses with
  \<open>GetWithRDNS\<close>, writes the test for the port the other way round and prints the body
  as it was read. The model returns the cache as the two lookups leave it.
\<close>

definition Stream_printBody :: "'b netlib \<Rightarrow> 'b option \<Rightarrow> reader \<Rightarrow> body_out \<times> reader" where
  "Stream_printBody lib body r =
     (case body of
        None \<Rightarrow> (None, r)
      | Some b \<Rightarrow>
          (case Body_Read lib b (1024 * 1024) r of
             (d, b', r') \<Rightarrow>
               let bodyData = take (1024 * 1024) d;
                   n = length bodyData
               in (if n > 0 then Some (n, Plain, bodyData) else None, Body_Close lib b' r')))"

definition Stream_printHTTPRequest ::
  "'b netlib \<Rightarrow> resolver \<Rightarrow> Flow \<Rightarrow> Cache \<Rightarrow> 'b Request \<Rightarrow> reader \<Rightarrow> RequestOut \<times> Cache \<times> reader" where
  "Stream_printHTTPRequest lib LookupAddr s dnsCache req r =
     (let srcIP = net_Src s;
          dstIP = net_Dst s;
          srcPort = transport_Src s;
          dstPort = transport_Dst s
      in case GetWithRDNS LookupAddr dnsCache srcIP of
           (srcFQDN, dnsCache1, _) \<Rightarrow>
             (case GetWithRDNS LookupAddr dnsCache1 dstIP of
                (dstFQDN, dnsCache2, _) \<Rightarrow>
                  let protocol = (if dstPort = ''443'' \<or> dstPort = ''8443'' then ''https'' else ''http'');
                      hostname = Host req;
                      hostname =
                        (if hostname = '''' then (if dstFQDN \<noteq> '''' then dstFQDN else dstIP)
                         else hostname);
                      hostname =
                        (if (protocol = ''http'' \<and> dstPort = ''80'') \<or> (protocol = ''https'' \<and> dstPort = ''443'')
                         then hostname
                         else (if \<not> Contains hostname '':'' then hostname @ '':'' @ dstPort else hostname));
                      fullURL = protocol @ ''://'' @ hostname @ Path (URL req);
                      fullURL =
                        (if RawQuery (URL req) \<noteq> '''' then fullURL @ ''?'' @ RawQuery (URL req)
                         else fullURL)
                  in case Stream_printBody lib (Body req) r of
                       (bodyOut, r') \<Rightarrow>
                         (\<lparr>req_Source = (srcIP, srcPort, srcFQDN),
                           req_Destination = (dstIP, dstPort, dstFQDN),
                           req_Method = Method req,
                           req_URL = fullURL,
                           req_Proto = Proto req,
                           req_Host = Host req,
                           req_Headers = Header req,
                           req_ContentLength = None,
                           req_BodyOut = bodyOut\<rparr>, dnsCache2, r')))"

subsection \<open>The request URL in the words of the specification\<close>

definition spec_scheme :: "string \<Rightarrow> string" where
  "spec_scheme dstPort = (if dstPort = ''443'' \<or> dstPort = ''8443'' then ''https'' else ''http'')"

definition spec_authority :: "string \<Rightarrow> string \<Rightarrow> string \<Rightarrow> string" where
  "spec_authority host resolved dstIP =
     (if host \<noteq> '''' then host else if resolved \<noteq> '''' then resolved else dstIP)"

definition spec_canonical :: "string \<Rightarrow> string \<Rightarrow> bool" where
  "spec_canonical scheme port = (scheme = ''http'' \<and> port = ''80'' \<or> scheme = ''https'' \<and> port = ''443'')"

definition spec_URL :: "string \<Rightarrow> string \<Rightarrow> string \<Rightarrow> string \<Rightarrow> string \<Rightarrow> string \<Rightarrow> string" where
  "spec_URL dstPort host resolved dstIP path query =
     (let scheme = spec_scheme dstPort;
          authority = spec_authority host resolved dstIP;
          appended = (\<not> spec_canonical scheme dstPort \<and> CHR '':'' \<notin> set authority)
      in scheme @ ''://'' @ (if appended then authority @ '':'' @ dstPort else authority)
         @ path @ (if query = '''' then '''' else ''?'' @ query))"

section \<open>net/http on well-formed messages\<close>

text \<open>
  The closed examples below need the library's answers on concrete byte streams. This
  section writes out what \<^verbatim>\<open>net/http\<close> (with \<^verbatim>\<open>net/textproto\<close>, \<^verbatim>\<open>net/url\<close> and \<^verbatim>\<open>bufio\<close>) does
  on the messages they use: lines that end in LF or CRLF and fit the 4096-byte buffer;
  a request line \<^verbatim>\<open>METHOD SP target SP HTTP/x.y\<close> whose target is \<^verbatim>\<open>*\<close> or starts with a
  slash and has no percent escape in its path; a status line \<^verbatim>\<open>HTTP/x.y SP code ...\<close>;
  header lines \<^verbatim>\<open>Name: value\<close> without continuation lines; no \<^verbatim>\<open>Transfer-Encoding\<close>. On
  anything else the definitions answer with an error, which is not always what the
  library does (it reads chunked bodies, for one); no theorem below states a property
  of these definitions for all inputs.
\<close>

definition CRLF :: string where
  "CRLF = [CHR 0x0D, CHR 0x0A]"

text \<open>\<^verbatim>\<open>strings.Cut\<close> for a separator of one byte.\<close>

fun Cut :: "string \<Rightarrow> char \<Rightarrow> (string \<times> string) option" where
  "Cut [] sep = None"
| "Cut (c # s) sep =
     (if c = sep then Some ([], s)
      else (case Cut s sep of None \<Rightarrow> None | Some (before, after) \<Rightarrow> Some (c # before, after)))"

text \<open>
  \<^verbatim>\<open>bufio.Reader.Read\<close> with room for \<open>n\<close> bytes: from the buffer when it holds something,
  straight from the underlying reader when the room is at least the buffer's size,
  else after one fill.
\<close>

definition bufio_Read :: "nat \<Rightarrow> reader \<Rightarrow> string \<times> reader" where
  "bufio_Read n r =
     (if buffered r = [] then
        (if n \<ge> 4096 then (take n (Buffer r), r\<lparr>Buffer := drop n (Buffer r)\<rparr>)
         else let r' = fill r in (take n (buffered r'), r'\<lparr>buffered := drop n (buffered r')\<rparr>))
      else (take n (buffered r), r\<lparr>buffered := drop n (buffered r)\<rparr>))"

text \<open>
  \<^verbatim>\<open>textproto.Reader.ReadLine\<close>: the bytes up to the next LF, without the LF and a CR
  before it; a last line without LF is returned as it is; \<open>None\<close> at the end of the data.
\<close>

definition ReadLine :: "reader \<Rightarrow> string option \<times> reader" where
  "ReadLine r =
     (let r' = (if CHR 0x0A \<in> set (buffered r) then r else fill r)
      in case Cut (buffered r') (CHR 0x0A) of
           Some (line, rest) \<Rightarrow>
             (Some (if line \<noteq> [] \<and> last line = CHR 0x0D then butlast line else line),
              r'\<lparr>buffered := rest\<rparr>)
         | None \<Rightarrow>
             if buffered r' = [] then (None, r')
             else (Some (buffered r'), r'\<lparr>buffered := []\<rparr>))"

definition isTokenChar :: "char \<Rightarrow> bool" where
  "isTokenChar c =
     (c \<in> set ''abcdefghijklmnopqrstuvwxyzABCDEFGHIJKLMNOPQRSTUVWXYZ0123456789!#$%&*+-.^_|~''
      \<or> c = CHR 0x27 \<or> c = CHR 0x60)"

definition isCTL :: "char \<Rightarrow> bool" where
  "isCTL c = ((of_char c :: nat) < 0x20 \<or> (of_char c :: nat) = 0x7f)"

definition digit :: "char \<Rightarrow> nat option" where
  "digit c = map_of (zip ''0123456789'' [0, 1, 2, 3, 4, 5, 6, 7, 8, 9]) c"

text \<open>A decimal numeral without sign (\<^verbatim>\<open>strconv.ParseUint(s, 10, 63)\<close>).\<close>

fun ParseUint_acc :: "nat \<Rightarrow> string \<Rightarrow> nat option" where
  "ParseUint_acc acc [] = Some acc"
| "ParseUint_acc acc (c # s) =
     (case digit c of None \<Rightarrow> None | Some d \<Rightarrow> ParseUint_acc (10 * acc + d) s)"

definition ParseUint63 :: "string \<Rightarrow> nat option" where
  "ParseUint63 s =
     (if s = [] then None
      else (case ParseUint_acc 0 s of
              None \<Rightarrow> None
            | Some n \<Rightarrow> if n < 2 ^ 63 then Some n else None))"

definition ToLower :: "char \<Rightarrow> char" where
  "ToLower c =
     (case map_of (zip ''ABCDEFGHIJKLMNOPQRSTUVWXYZ'' ''abcdefghijklmnopqrstuvwxyz'') c of
        Some l \<Rightarrow> l | None \<Rightarrow> c)"

definition ToUpper :: "char \<Rightarrow> char" where
  "ToUpper c =
     (case map_of (zip ''abcdefghijklmnopqrstuvwxyz'' ''ABCDEFGHIJKLMNOPQRSTUVWXYZ'') c of
        Some u \<Rightarrow> u | None \<Rightarrow> c)"

definition isSpaceTab :: "char \<Rightarrow> bool" where
  "isSpaceTab c = (c = CHR '' '' \<or> c = CHR 0x09)"

definition TrimString :: "string \<Rightarrow> string" where
  "TrimString s = rev (dropWhile isSpaceTab (rev (dropWhile isSpaceTab s)))"

fun canonical_from :: "bool \<Rightarrow> string \<Rightarrow> string" where
  "canonical_from upper [] = []"
| "canonical_from upper (c # s) =
     (if upper then ToUpper c else ToLower c) # canonical_from (c = CHR ''-'') s"

definition CanonicalMIMEHeaderKey :: "string \<Rightarrow> string" where
  "CanonicalMIMEHeaderKey s = canonical_from True s"

definition parseRequestLine :: "string \<Rightarrow> (string \<times> string \<times> string) option" where
  "parseRequestLine line =
     (case Cut line (CHR '' '') of
        None \<Rightarrow> None
      | Some (method, rest) \<Rightarrow>
          (case Cut rest (CHR '' '') of
             None \<Rightarrow> None
           | Some (requestURI, proto) \<Rightarrow> Some (method, requestURI, proto)))"

definition validMethod :: "string \<Rightarrow> bool" where
  "validMethod method = (length method > 0 \<and> list_all isTokenChar method)"

definition ParseHTTPVersion :: "string \<Rightarrow> (nat \<times> nat) option" where
  "ParseHTTPVersion vers =
     (if vers = ''HTTP/1.1'' then Some (1, 1)
      else if vers = ''HTTP/1.0'' then Some (1, 0)
      else if \<not> HasPrefix vers ''HTTP/'' then None
      else if length vers \<noteq> 8 then None
      else if vers ! 6 \<noteq> CHR ''.'' then None
      else (case (digit (vers ! 5), digit (vers ! 7)) of
              (Some major, Some minor) \<Rightarrow> Some (major, minor)
            | _ \<Rightarrow> None))"

definition ParseRequestURI :: "string \<Rightarrow> URL option" where
  "ParseRequestURI rawurl =
     (if list_ex isCTL rawurl then None
      else if rawurl = '''' then None
      else if rawurl = ''*'' then Some \<lparr>Path = ''*'', RawQuery = ''''\<rparr>
      else if \<not> HasPrefix rawurl ''/'' then None
      else
        (case (case Cut rawurl (CHR ''?'') of None \<Rightarrow> (rawurl, '''') | Some (rest, query) \<Rightarrow> (rest, query)) of
           (rest, query) \<Rightarrow>
             if CHR ''%'' \<in> set rest then None
             else Some \<lparr>Path = rest, RawQuery = query\<rparr>))"

text \<open>
  \<^verbatim>\<open>ReadMIMEHeader\<close>: lines up to the empty one. A line without a colon, a name that is
  not a token, or the end of the data is an error; a line with an empty name is
  skipped. The count bounds the number of lines by the number of bytes at hand.
\<close>

fun readHeaderLines ::
  "nat \<Rightarrow> (string \<rightharpoonup> string list) \<Rightarrow> reader \<Rightarrow> (string \<rightharpoonup> string list) option \<times> reader" where
  "readHeaderLines 0 hdr r = (None, r)"
| "readHeaderLines (Suc k) hdr r =
     (case ReadLine r of
        (None, r') \<Rightarrow> (None, r')
      | (Some line, r') \<Rightarrow>
          if line = '''' then (Some hdr, r')
          else if isSpaceTab (hd line) then (None, r')
          else
            (case Cut line (CHR '':'') of
               None \<Rightarrow> (None, r')
             | Some (k0, v) \<Rightarrow>
                 if \<not> list_all isTokenChar k0 then (None, r')
                 else if k0 = '''' then readHeaderLines k hdr r'
                 else
                   let key = CanonicalMIMEHeaderKey k0;
                       value = TrimString v
                   in readHeaderLines k
                        (hdr(key \<mapsto> (case hdr key of None \<Rightarrow> [] | Some vs \<Rightarrow> vs) @ [value])) r'))"

definition ReadMIMEHeader :: "reader \<Rightarrow> (string \<rightharpoonup> string list) option \<times> reader" where
  "ReadMIMEHeader r = readHeaderLines (Suc (length (buffered r) + length (Buffer r))) Map.empty r"

definition fixPragmaCacheControl :: "(string \<rightharpoonup> string list) \<Rightarrow> (string \<rightharpoonup> string list)" where
  "fixPragmaCacheControl header =
     (case header ''Pragma'' of
        Some (hp # _) \<Rightarrow>
          if hp = ''no-cache'' \<and> header ''Cache-Control'' = None
          then header(''Cache-Control'' \<mapsto> [''no-cache''])
          else header
      | _ \<Rightarrow> header)"

text \<open>
  The tokens of the \<^verbatim>\<open>Connection\<close> header, split at commas, and \<^verbatim>\<open>shouldClose\<close>.
\<close>

fun split_comma :: "string \<Rightarrow> string \<Rightarrow> string list" where
  "split_comma acc [] = [rev acc]"
| "split_comma acc (c # s) =
     (if c = CHR '','' then rev acc # split_comma [] s else split_comma (c # acc) s)"

definition hasToken :: "string list \<Rightarrow> string \<Rightarrow> bool" where
  "hasToken values token =
     list_ex (\<lambda>v. list_ex (\<lambda>t. map ToLower (TrimString t) = token) (split_comma [] v)) values"

definition shouldClose :: "nat \<Rightarrow> nat \<Rightarrow> (string \<rightharpoonup> string list) \<Rightarrow> bool" where
  "shouldClose major minor header =
     (let conn = (case header ''Connection'' of None \<Rightarrow> [] | Some vs \<Rightarrow> vs)
      in if major < 1 then True
         else if major = 1 \<and> minor = 0 then \<not> hasToken conn ''keep-alive''
         else hasToken conn ''close'')"

text \<open>
  The bodies \<^verbatim>\<open>readTransfer\<close> builds: \<^verbatim>\<open>http.NoBody\<close>; a body of known length over
  \<^verbatim>\<open>io.LimitReader(r, n)\<close>, with what is left of \<open>n\<close> and the flag \<^verbatim>\<open>closing\<close>; a body that
  reads until the data ends.
\<close>

datatype http_body = NoBody | LimitedBody nat bool | UntilEOF

text \<open>
  \<^verbatim>\<open>fixLength\<close>: the declared length of the body, \<open>Inr None\<close> for a body that ends with the
  data, \<open>Inl ()\<close> for an error. The header comes back with equal \<^verbatim>\<open>Content-Length\<close> values
  merged.
\<close>

definition fixLength ::
  "bool \<Rightarrow> nat \<Rightarrow> (string \<rightharpoonup> string list) \<Rightarrow> (unit + nat option) \<times> (string \<rightharpoonup> string list)" where
  "fixLength isResponse status header =
     (let contentLens = (case header ''Content-Length'' of None \<Rightarrow> [] | Some vs \<Rightarrow> vs)
      in if length contentLens > 1 \<and> \<not> list_all (\<lambda>ct. TrimString ct = TrimString (hd contentLens)) (tl contentLens)
         then (Inl (), header)
         else
           let header = (if length contentLens > 1
                         then header(''Content-Length'' \<mapsto> [TrimString (hd contentLens)]) else header);
               parsed = (if contentLens = [] then Some None
                         else map_option Some (ParseUint63 (TrimString (hd contentLens))))
           in case parsed of
                None \<Rightarrow> (Inl (), header)
              | Some n \<Rightarrow>
                  if isResponse \<and> status div 100 = 1 then (Inr (Some 0), header)
                  else if isResponse \<and> (status = 204 \<or> status = 304) then (Inr (Some 0), header)
                  else (case n of
                          Some len \<Rightarrow> (Inr (Some len), header)
                        | None \<Rightarrow> if isResponse then (Inr None, header) else (Inr (Some 0), header)))"

definition transferBody :: "bool \<Rightarrow> nat option \<Rightarrow> http_body" where
  "transferBody closing realLength =
     (case realLength of
        Some n \<Rightarrow> if n = 0 then NoBody else LimitedBody n closing
      | None \<Rightarrow> UntilEOF)"

definition http_ReadRequest :: "reader \<Rightarrow> http_body Request option \<times> reader" where
  "http_ReadRequest r =
     (case ReadLine r of
        (None, r1) \<Rightarrow> (None, r1)
      | (Some s, r1) \<Rightarrow>
          (case parseRequestLine s of
             None \<Rightarrow> (None, r1)
           | Some (method, requestURI, proto) \<Rightarrow>
               if \<not> validMethod method then (None, r1)
               else
                 (case ParseHTTPVersion proto of
                    None \<Rightarrow> (None, r1)
                  | Some (major, minor) \<Rightarrow>
                      (case ParseRequestURI requestURI of
                         None \<Rightarrow> (None, r1)
                       | Some url \<Rightarrow>
                           (case ReadMIMEHeader r1 of
                              (None, r2) \<Rightarrow> (None, r2)
                            | (Some mimeHeader, r2) \<Rightarrow>
                                if length (case mimeHeader ''Host'' of None \<Rightarrow> [] | Some vs \<Rightarrow> vs) > 1
                                then (None, r2)
                                else if mimeHeader ''Transfer-Encoding'' \<noteq> None then (None, r2)
                                else
                                  let header = fixPragmaCacheControl mimeHeader;
                                      closing = shouldClose major minor header
                                  in case fixLength False 0 header of
                                       (Inl _, _) \<Rightarrow> (None, r2)
                                     | (Inr realLength, header) \<Rightarrow>
                                         (Some \<lparr>Method = method, URL = url, Proto = proto,
                                                Host = Header_Get header ''Host'',
                                                Header = header,
                                                ContentLength = (case realLength of Some n \<Rightarrow> int n | None \<Rightarrow> - 1),
                                                Body = Some (transferBody closing realLength)\<rparr>, r2))))))"

text \<open>The status code: three bytes that \<^verbatim>\<open>strconv.Atoi\<close> reads as a number not below zero.\<close>

definition parseStatusCode :: "string \<Rightarrow> nat option" where
  "parseStatusCode statusCode =
     (if length statusCode \<noteq> 3 then None
      else if hd statusCode = CHR ''+'' then ParseUint63 (tl statusCode)
      else ParseUint63 statusCode)"

definition http_ReadResponse :: "reader \<Rightarrow> http_body Response option \<times> reader" where
  "http_ReadResponse r =
     (case ReadLine r of
        (None, r1) \<Rightarrow> (None, r1)
      | (Some line, r1) \<Rightarrow>
          (case Cut line (CHR '' '') of
             None \<Rightarrow> (None, r1)
           | Some (proto, status0) \<Rightarrow>
               let status = dropWhile (\<lambda>c. c = CHR '' '') status0;
                   statusCode = (case Cut status (CHR '' '') of None \<Rightarrow> status | Some (code, _) \<Rightarrow> code)
               in case parseStatusCode statusCode of
                    None \<Rightarrow> (None, r1)
                  | Some code \<Rightarrow>
                      (case ParseHTTPVersion proto of
                         None \<Rightarrow> (None, r1)
                       | Some (major, minor) \<Rightarrow>
                           (case ReadMIMEHeader r1 of
                              (None, r2) \<Rightarrow> (None, r2)
                            | (Some mimeHeader, r2) \<Rightarrow>
                                if mimeHeader ''Transfer-Encoding'' \<noteq> None then (None, r2)
                                else
                                  let header = fixPragmaCacheControl mimeHeader
                                  in case fixLength True code header of
                                       (Inl _, _) \<Rightarrow> (None, r2)
                                     | (Inr realLength, header) \<Rightarrow>
                                         let closing = (shouldClose major minor header \<or> realLength = None)
                                         in (Some \<lparr>Status = status, resp_Proto = proto,
                                                   resp_Header = header,
                                                   resp_Body = Some (transferBody closing realLength)\<rparr>, r2)))))"

text \<open>
  \<^verbatim>\<open>Body.Read\<close> and \<^verbatim>\<open>Body.Close\<close>. A body of known length reads at most what is left of
  it. \<^verbatim>\<open>Close\<close> reads and drops the rest of such a body unless the connection is closing;
  \<open>discard\<close> is exact on the two buffers when the rest lies in the \<^verbatim>\<open>bufio\<close> buffer and on
  their concatenation beyond that.
\<close>

definition http_Body_Read :: "http_body \<Rightarrow> nat \<Rightarrow> reader \<Rightarrow> string \<times> http_body \<times> reader" where
  "http_Body_Read b n r =
     (case b of
        NoBody \<Rightarrow> ('''', NoBody, r)
      | LimitedBody left closing \<Rightarrow>
          (case bufio_Read (min n left) r of
             (d, r') \<Rightarrow> (d, LimitedBody (left - length d) closing, r'))
      | UntilEOF \<Rightarrow> (case bufio_Read n r of (d, r') \<Rightarrow> (d, UntilEOF, r')))"

definition discard :: "nat \<Rightarrow> reader \<Rightarrow> reader" where
  "discard m r =
     (if m \<le> length (buffered r) then r\<lparr>buffered := drop m (buffered r)\<rparr>
      else r\<lparr>buffered := [], Buffer := drop (m - length (buffered r)) (Buffer r)\<rparr>)"

definition http_Body_Close :: "http_body \<Rightarrow> reader \<Rightarrow> reader" where
  "http_Body_Close b r =
     (case b of
        NoBody \<Rightarrow> r
      | LimitedBody left closing \<Rightarrow> if closing then r else discard left r
      | UntilEOF \<Rightarrow> r)"

text \<open>
  \<^verbatim>\<open>compress/gzip\<close> is not modelled. Data that does not start with the magic bytes
  \<^verbatim>\<open>1f 8b\<close> is refused by \<^verbatim>\<open>gzip.NewReader\<close>. \<open>gz_zeros\<close> is the gzip file (deflate, level 9,
  1051 bytes) of \<open>1024 * 1024 + 1\<close> zero bytes, which the library inflates to just that;
  on other data that starts with the magic bytes the table answers with an error.
\<close>

definition gz_zeros :: string where
  "gz_zeros =
     [CHR 0x1f, CHR 0x8b, CHR 0x08, CHR 0x00, CHR 0x00, CHR 0x00, CHR 0x00, CHR 0x00, CHR 0x02,
      CHR 0x03, CHR 0xed, CHR 0xc1, CHR 0x31, CHR 0x01, CHR 0x00, CHR 0x00, CHR 0x00, CHR 0xc2,
      CHR 0xa0, CHR 0xf5, CHR 0x4f, CHR 0x6d, CHR 0x08, CHR 0x5f, CHR 0xa0]
     @ replicate 1016 (CHR 0x00)
     @ [CHR 0x4e, CHR 0x03, CHR 0x28, CHR 0x8b, CHR 0xa4, CHR 0xc6, CHR 0x01, CHR 0x00, CHR 0x10,
        CHR 0x00]"

definition gzip_ReadAll_known :: "string \<Rightarrow> string option" where
  "gzip_ReadAll_known data =
     (if \<not> HasPrefix data [CHR 0x1f, CHR 0x8b] then None
      else if data = gz_zeros then Some (replicate (1024 * 1024 + 1) (CHR 0x00))
      else None)"

definition lib_http :: "http_body netlib" where
  "lib_http =
     \<lparr>ReadRequest = http_ReadRequest, ReadResponse = http_ReadResponse,
      Body_Read = http_Body_Read, Body_Close = http_Body_Close,
      gzip_ReadAll = gzip_ReadAll_known\<rparr>"

section \<open>Properties of the DNS cache\<close>

lemma HasSuffix_rev: "HasSuffix s suf = prefix (rev suf) (rev s)"
  by (simp add: HasSuffix_def suffix_to_prefix)

lemma TrimSuffix_append [simp]: "TrimSuffix (h @ suf) suf = h"
  by (simp add: TrimSuffix_def HasSuffix_def suffix_def)

lemma Get_Add [simp]: "Get (Add c ip fqdn) ip = (TrimSuffix fqdn ''.'', True)"
  by (simp add: Get_def Add_def)

lemma GetWithRDNS_entries: "entries (fst (snd (GetWithRDNS L c ip))) = entries c"
  by (simp add: GetWithRDNS_def Let_def split: prod.splits bool.splits option.splits)

lemma resolve_all_entries: "entries (fst (snd (resolve_all c calls))) = entries c"
proof (induction calls arbitrary: c)
  case Nil
  show ?case by simp
next
  case (Cons call calls)
  obtain L ip where call: "call = (L, ip)" by (cases call)
  obtain h c' looked where g: "GetWithRDNS L c ip = (h, c', looked)"
    by (cases "GetWithRDNS L c ip")
  have "entries c' = entries c"
    using GetWithRDNS_entries [of L c ip] g by simp
  moreover have "entries (fst (snd (resolve_all c' calls))) = entries c'"
    by (rule Cons.IH)
  ultimately show ?case
    by (auto simp add: call g split: prod.splits)
qed

text \<open>
  C6. After \<open>Add c ip (h @ ''.'')\<close>, that is \<^verbatim>\<open>recordAnswer\<close> with a hostname that ends in
  a dot, \<open>GetWithRDNS\<close> for the same address returns \<open>h\<close>, the hostname without that dot,
  leaves the cache as it is and runs no reverse lookup, whatever the resolver would
  have answered. \<open>Get\<close>, which the command-line program calls, returns the same name.
\<close>

theorem C6_recordAnswer_then_resolve:
  "GetWithRDNS L (Add c ip (h @ ''.'')) ip = (h, Add c ip (h @ ''.''), [])
   \<and> Get (Add c ip (h @ ''.'')) ip = (h, True)"
  by (simp add: GetWithRDNS_def)

theorem C6_witness:
  "GetWithRDNS (\<lambda>_. Some [''other.example.'']) (Add NewCache ''10.0.0.1'' ''www.example.com.'') ''10.0.0.1''
     = (''www.example.com'', Add NewCache ''10.0.0.1'' ''www.example.com.'', [])"
  using C6_recordAnswer_then_resolve [of "\<lambda>_. Some [''other.example.'']" NewCache "''10.0.0.1''" "''www.example.com''"]
  by simp

text \<open>
  C10. \<open>GetWithRDNS\<close> never changes the forward entries: after any sequence of calls,
  with any resolver answers (hits, successful reverse lookups, negative results), the
  map \<open>entries\<close> is the one before the calls, so \<open>Size\<close> is unchanged and \<open>Get\<close> returns for
  every address what it returned before; in particular what \<open>Add\<close> stored is still
  returned.
\<close>

theorem C10_GetWithRDNS_frame:
  "entries (fst (snd (resolve_all c calls))) = entries c
   \<and> Size (fst (snd (resolve_all c calls))) = Size c
   \<and> Get (fst (snd (resolve_all c calls))) ip = Get c ip
   \<and> Get (fst (snd (resolve_all (Add c ip fqdn) calls))) ip = (TrimSuffix fqdn ''.'', True)"
proof -
  have e: "\<And>d. entries (fst (snd (resolve_all d calls))) = entries d"
    by (rule resolve_all_entries)
  show ?thesis
    using e [of c] e [of "Add c ip fqdn"] Get_Add [of c ip fqdn]
    by (simp add: Size_def Get_def)
qed

theorem C10_witness:
  "Size (fst (snd (resolve_all (Add NewCache ''10.0.0.1'' ''a.example.'')
       [(\<lambda>_. None, ''10.0.0.2''), (\<lambda>_. Some [''b.example.''], ''10.0.0.3''), (\<lambda>_. None, ''10.0.0.1'')])))
     = Size (Add NewCache ''10.0.0.1'' ''a.example.'')
   \<and> Get (fst (snd (resolve_all (Add NewCache ''10.0.0.1'' ''a.example.'')
       [(\<lambda>_. None, ''10.0.0.2''), (\<lambda>_. Some [''b.example.''], ''10.0.0.3''), (\<lambda>_. None, ''10.0.0.1'')]))) ''10.0.0.1''
     = (''a.example'', True)"
  using C10_GetWithRDNS_frame [of "Add NewCache ''10.0.0.1'' ''a.example.''"
      "[(\<lambda>_. None, ''10.0.0.2''), (\<lambda>_. Some [''b.example.''], ''10.0.0.3''), (\<lambda>_. None, ''10.0.0.1'')]"
      "''10.0.0.1''" "''a.example.''"]
    C10_GetWithRDNS_frame [of NewCache
      "[(\<lambda>_. None, ''10.0.0.2''), (\<lambda>_. Some [''b.example.''], ''10.0.0.3''), (\<lambda>_. None, ''10.0.0.1'')]"
      "''10.0.0.1''" "''a.example.''"]
  by (simp add: TrimSuffix_def HasSuffix_rev)

subsection \<open>Resolving twice\<close>

lemma known_GetWithRDNS: "known c ip = Some v \<Longrightarrow> GetWithRDNS L c ip = (v, c, [])"
  by (auto simp add: known_def GetWithRDNS_def Get_def split: option.splits)

lemma GetWithRDNS_known:
  "GetWithRDNS L c ip = (h, c', looked) \<Longrightarrow> known c' ip = Some h"
  by (auto simp add: known_def GetWithRDNS_def Get_def Let_def split: option.splits if_splits)

lemma GetWithRDNS_looked:
  "GetWithRDNS L c ip = (h, c', looked) \<Longrightarrow> looked = [] \<or> looked = [ip] \<and> known c ip = None"
  by (auto simp add: known_def GetWithRDNS_def Get_def Let_def split: option.splits if_splits)

lemma known_mono:
  "known c ip = Some v \<Longrightarrow> GetWithRDNS L c ip' = (h, c', looked) \<Longrightarrow> known c' ip = Some v"
  by (auto simp add: known_def GetWithRDNS_def Get_def Let_def split: option.splits if_splits)

lemma known_resolve_all:
  "known c ip = Some v \<Longrightarrow> resolve_all c calls = (hs, c', looked) \<Longrightarrow>
     ip \<notin> set looked \<and> known c' ip = Some v"
proof (induction calls arbitrary: c hs c' looked)
  case Nil
  then show ?case by simp
next
  case (Cons call calls)
  obtain L ip' where call: "call = (L, ip')" by (cases call)
  obtain h c1 l1 where g: "GetWithRDNS L c ip' = (h, c1, l1)"
    by (cases "GetWithRDNS L c ip'")
  obtain hs' c2 l2 where r: "resolve_all c1 calls = (hs', c2, l2)"
    by (cases "resolve_all c1 calls")
  have k1: "known c1 ip = Some v"
    using known_mono [OF Cons.prems(1) g] .
  have ih: "ip \<notin> set l2 \<and> known c2 ip = Some v"
    using Cons.IH [OF k1 r] .
  have "ip \<notin> set l1"
    using GetWithRDNS_looked [OF g] Cons.prems(1) by auto
  moreover have "looked = l1 @ l2" "c' = c2"
    using Cons.prems(2) by (simp_all add: call g r)
  ultimately show ?case
    using ih by simp
qed

lemma caller_alone:
  "GetWithRDNS L c ip = (h, c', looked) \<Longrightarrow>
     exec L [0, 0, 0, 0] \<lparr>cache = c, callers = [(ip, AtGet)], lookups = []\<rparr>
       = \<lparr>cache = c', callers = [(ip, Returned h)], lookups = looked\<rparr>"
  by (auto simp add: GetWithRDNS_def sched_step_def Get_def Let_def split: option.splits if_splits)

text \<open>
  C7, as amended. When the calls run one after the other, \<open>GetWithRDNS\<close> is idempotent:
  after a first call for \<open>ip\<close>, and any further \<open>GetWithRDNS\<close> calls for any addresses
  (no \<open>Add\<close>), a second call for \<open>ip\<close> returns the hostname of the first (the negative
  result \<open>''''\<close> included), whatever the network would answer by then, leaves the
  cache as it is, and the reverse lookup for \<open>ip\<close> has run at most once in all.
\<close>

theorem C7_sequential_idempotence:
  assumes "GetWithRDNS L1 c ip = (h1, c1, l1)"
    and "resolve_all c1 calls = (hs, c2, l2)"
    and "GetWithRDNS L2 c2 ip = (h2, c3, l3)"
  shows "h2 = h1 \<and> c3 = c2 \<and> l3 = [] \<and> count_list (l1 @ l2 @ l3) ip \<le> 1"
proof -
  have k1: "known c1 ip = Some h1"
    using GetWithRDNS_known [OF assms(1)] .
  have k2: "ip \<notin> set l2 \<and> known c2 ip = Some h1"
    using known_resolve_all [OF k1 assms(2)] .
  have third: "h2 = h1 \<and> c3 = c2 \<and> l3 = []"
    using known_GetWithRDNS [of c2 ip h1 L2] k2 assms(3) by simp
  have "count_list l1 ip \<le> 1"
    using GetWithRDNS_looked [OF assms(1)] by auto
  moreover have "count_list l2 ip = 0"
    using k2 by (simp add: count_list_0_iff)
  ultimately show ?thesis
    using third by simp
qed

theorem C7_witness:
  "GetWithRDNS (\<lambda>_. Some [''a.example.'']) NewCache ''10.0.0.1''
     = (''a.example'', NewCache\<lparr>rdnsCache := [''10.0.0.1'' \<mapsto> ''a.example'']\<rparr>, [''10.0.0.1''])
   \<and> fst (GetWithRDNS (\<lambda>_. None)
        (fst (snd (resolve_all (NewCache\<lparr>rdnsCache := [''10.0.0.1'' \<mapsto> ''a.example'']\<rparr>) [(\<lambda>_. None, ''10.0.0.2'')])))
        ''10.0.0.1'') = ''a.example''"
proof -
  let ?L1 = "\<lambda>_::string. Some [''a.example.'']"
  let ?c1 = "NewCache\<lparr>rdnsCache := [''10.0.0.1'' \<mapsto> ''a.example'']\<rparr>"
  let ?calls = "[(\<lambda>_::string. None :: string list option, ''10.0.0.2'')]"
  have a: "GetWithRDNS ?L1 NewCache ''10.0.0.1'' = (''a.example'', ?c1, [''10.0.0.1''])"
    by (simp add: GetWithRDNS_def Get_def NewCache_def TrimSuffix_def HasSuffix_rev Let_def)
  obtain hs c2 l2 where b: "resolve_all ?c1 ?calls = (hs, c2, l2)"
    by (cases "resolve_all ?c1 ?calls")
  obtain h2 c3 l3 where c: "GetWithRDNS (\<lambda>_. None) c2 ''10.0.0.1'' = (h2, c3, l3)"
    by (cases "GetWithRDNS (\<lambda>_. None) c2 ''10.0.0.1''")
  have "h2 = ''a.example''"
    using C7_sequential_idempotence [OF a b c] by simp
  then show ?thesis
    using a b c by simp
qed

text \<open>
  The claim as stated fails when two callers overlap: both read \<open>entries\<close> and
  \<open>rdnsCache\<close> before either has stored a result, and each runs the reverse lookup.
\<close>

theorem C7_counterexample:
  "lookups (exec (\<lambda>_. Some [''a.example.'']) [0, 0, 1, 1, 0, 0, 1, 1]
      \<lparr>cache = NewCache, callers = [(''10.0.0.1'', AtGet), (''10.0.0.1'', AtGet)], lookups = []\<rparr>)
     = [''10.0.0.1'', ''10.0.0.1'']
   \<and> callers (exec (\<lambda>_. Some [''a.example.'']) [0, 0, 1, 1, 0, 0, 1, 1]
      \<lparr>cache = NewCache, callers = [(''10.0.0.1'', AtGet), (''10.0.0.1'', AtGet)], lookups = []\<rparr>)
     = [(''10.0.0.1'', Returned ''a.example''), (''10.0.0.1'', Returned ''a.example'')]"
  by (simp add: sched_step_def Get_def NewCache_def TrimSuffix_def HasSuffix_rev)

section \<open>Properties of the packet loop\<close>

lemma isHTTPPort_False_iff:
  "isHTTPPort port = False \<longleftrightarrow>
     port \<in> {''22'', ''23'', ''25'', ''53'', ''110'', ''143'', ''993'', ''995''}"
  by (auto simp add: isHTTPPort_def)

lemma bare_numeral_last:
  "port \<in> {''22'', ''23'', ''25'', ''53'', ''110'', ''143'', ''993'', ''995''}
     \<Longrightarrow> last port \<noteq> CHR '')''"
  by auto

lemma isHTTPPort_named: "isHTTPPort (digits @ ''('' @ name @ '')'')"
proof (rule ccontr)
  assume "\<not> isHTTPPort (digits @ ''('' @ name @ '')'')"
  then have "digits @ ''('' @ name @ '')''
      \<in> {''22'', ''23'', ''25'', ''53'', ''110'', ''143'', ''993'', ''995''}"
    using isHTTPPort_False_iff [of "digits @ ''('' @ name @ '')''"] by simp
  then have "last (digits @ ''('' @ name @ '')'') \<noteq> CHR '')''"
    by (rule bare_numeral_last)
  then show False
    by simp
qed

text \<open>
  C9. As the switch is written, \<open>isHTTPPort\<close> answers \<open>False\<close> exactly on the eight bare
  numerals, so a segment whose two port strings are among them is not reassembled. But
  the strings come from \<^verbatim>\<open>TCPPort.String()\<close>, which renders a port that has a service
  name as \<^verbatim>\<open>22(ssh)\<close>: for every port the table names, \<open>isHTTPPort\<close> answers \<open>True\<close>, and a
  segment with such a source or destination port is reassembled. All eight ports of
  the switch have names, so the segment from port 22 to port 25 is reassembled.
\<close>

theorem C9_named_port_is_assembled:
  "names (SrcPort tcpLayer) = Some name \<or> names (DstPort tcpLayer) = Some name
     \<Longrightarrow> assembled names tcpLayer"
  using isHTTPPort_named
  by (auto simp add: assembled_def TCPPort_String_def Let_def split: option.splits)

theorem C9_witness:
  "TCPPortNames 22 = Some ''ssh''
   \<and> TCPPort_String TCPPortNames 22 = ''22(ssh)''
   \<and> TCPPort_String TCPPortNames 25 = ''25(smtp)''
   \<and> assembled TCPPortNames \<lparr>SrcPort = 22, DstPort = 25\<rparr>"
  using C9_named_port_is_assembled [of TCPPortNames "\<lparr>SrcPort = 22, DstPort = 25\<rparr>" "''ssh''"]
  by (simp add: TCPPortNames_def TCPPort_String_def Itoa.simps)

lemma assembled_bare_numerals:
  "assembled Map.empty \<lparr>SrcPort = 22, DstPort = 25\<rparr> = False"
  by (simp add: assembled_def TCPPort_String_def Itoa.simps isHTTPPort_def)

section \<open>Properties of the print functions\<close>

lemma Contains_single: "Contains s [c] \<longleftrightarrow> c \<in> set s"
  by (induction s) auto

text \<open>
  C1. The URL that \<open>printHTTPRequest\<close> prints for a parsed request is the one the
  specification describes: scheme \<open>https\<close> exactly for the destination ports 443 and
  8443; authority the request's \<open>Host\<close> when it is not empty, else the destination's
  name in the DNS cache when that is not empty, else the destination address; the port
  appended exactly when scheme and port are not http/80 or https/443 and the authority
  holds no colon; then the path and, when there is one, the query. The same holds for
  \<open>Stream_printHTTPRequest\<close>, where the name comes from \<open>GetWithRDNS\<close>.
\<close>

theorem C1_full_URL:
  "req_URL (fst (printHTTPRequest lib h dnsCache req r))
     = spec_URL (transport_Dst h) (Host req) (fst (Get dnsCache (net_Dst h))) (net_Dst h)
         (Path (URL req)) (RawQuery (URL req))
   \<and> req_URL (fst (Stream_printHTTPRequest lib L h dnsCache req r))
     = spec_URL (transport_Dst h) (Host req)
         (fst (GetWithRDNS L (fst (snd (GetWithRDNS L dnsCache (net_Src h)))) (net_Dst h))) (net_Dst h)
         (Path (URL req)) (RawQuery (URL req))"
proof
  show "req_URL (fst (printHTTPRequest lib h dnsCache req r))
     = spec_URL (transport_Dst h) (Host req) (fst (Get dnsCache (net_Dst h))) (net_Dst h)
         (Path (URL req)) (RawQuery (URL req))"
    by (simp add: printHTTPRequest_def spec_URL_def spec_scheme_def spec_authority_def
        spec_canonical_def Contains_single Let_def Get_def split: prod.splits option.splits)
next
  obtain a c1 l1 where g1: "GetWithRDNS L dnsCache (net_Src h) = (a, c1, l1)"
    by (cases "GetWithRDNS L dnsCache (net_Src h)")
  obtain b c2 l2 where g2: "GetWithRDNS L c1 (net_Dst h) = (b, c2, l2)"
    by (cases "GetWithRDNS L c1 (net_Dst h)")
  show "req_URL (fst (Stream_printHTTPRequest lib L h dnsCache req r))
     = spec_URL (transport_Dst h) (Host req)
         (fst (GetWithRDNS L (fst (snd (GetWithRDNS L dnsCache (net_Src h)))) (net_Dst h))) (net_Dst h)
         (Path (URL req)) (RawQuery (URL req))"
    by (simp add: Stream_printHTTPRequest_def g1 g2 spec_URL_def spec_scheme_def spec_authority_def
        spec_canonical_def Contains_single Let_def split: prod.splits)
qed

theorem C1_witness:
  "req_URL (fst (printHTTPRequest lib_http
       \<lparr>net_Src = ''10.0.0.5'', net_Dst = ''10.0.0.9'', transport_Src = ''51234'', transport_Dst = ''80''\<rparr>
       NewCache
       \<lparr>Method = ''GET'', URL = \<lparr>Path = ''/a'', RawQuery = ''x=1''\<rparr>, Proto = ''HTTP/1.1'',
        Host = ''example.com'', Header = [''Host'' \<mapsto> [''example.com'']], ContentLength = 0,
        Body = Some NoBody\<rparr>
       \<lparr>Buffer = [], buffered = [], incoming = []\<rparr>))
     = ''http://example.com/a?x=1''
   \<and> req_URL (fst (printHTTPRequest lib_http
       \<lparr>net_Src = ''10.0.0.5'', net_Dst = ''10.0.0.9'', transport_Src = ''51234'', transport_Dst = ''8443''\<rparr>
       (Add NewCache ''10.0.0.9'' ''www.example.com.'')
       \<lparr>Method = ''GET'', URL = \<lparr>Path = ''/'', RawQuery = []\<rparr>, Proto = ''HTTP/1.0'',
        Host = [], Header = Map.empty, ContentLength = 0, Body = Some NoBody\<rparr>
       \<lparr>Buffer = [], buffered = [], incoming = []\<rparr>))
     = ''https://www.example.com:8443/''"
  using C1_full_URL [of lib_http
       "\<lparr>net_Src = ''10.0.0.5'', net_Dst = ''10.0.0.9'', transport_Src = ''51234'', transport_Dst = ''80''\<rparr>"
       NewCache
       "\<lparr>Method = ''GET'', URL = \<lparr>Path = ''/a'', RawQuery = ''x=1''\<rparr>, Proto = ''HTTP/1.1'',
        Host = ''example.com'', Header = [''Host'' \<mapsto> [''example.com'']], ContentLength = 0,
        Body = Some NoBody\<rparr>"
       "\<lparr>Buffer = [], buffered = [], incoming = []\<rparr>"]
    C1_full_URL [of lib_http
       "\<lparr>net_Src = ''10.0.0.5'', net_Dst = ''10.0.0.9'', transport_Src = ''51234'', transport_Dst = ''8443''\<rparr>"
       "Add NewCache ''10.0.0.9'' ''www.example.com.''"
       "\<lparr>Method = ''GET'', URL = \<lparr>Path = ''/'', RawQuery = []\<rparr>, Proto = ''HTTP/1.0'',
        Host = [], Header = Map.empty, ContentLength = 0, Body = Some NoBody\<rparr>"
       "\<lparr>Buffer = [], buffered = [], incoming = []\<rparr>"]
  by (simp add: spec_URL_def spec_scheme_def spec_authority_def spec_canonical_def Get_def NewCache_def
      Add_def TrimSuffix_def HasSuffix_rev)

section \<open>Properties of run\<close>

lemma delivered_Sleep: "delivered (Sleep r) = delivered r"
  by (simp add: delivered_def Sleep_def split: list.splits)

lemma delivered_wait_data: "delivered (wait_data n r) = delivered r"
  by (induction n arbitrary: r) (simp_all add: delivered_Sleep)

lemma delivered_wait_grow: "delivered (wait_grow n p r) = delivered r"
  by (induction n arbitrary: p r) (simp_all add: delivered_Sleep Let_def)

lemma prefix_two_nth:
  assumes "prefix [a, b] (xs @ ys)" and "2 \<le> length xs"
  shows "xs ! 0 = a \<and> xs ! Suc 0 = b"
proof -
  obtain x y zs where xs: "xs = x # y # zs"
    using assms(2) by (cases xs; cases "tl xs") auto
  show ?thesis
    using assms(1) by (simp add: xs)
qed

lemma run_loop_tls:
  assumes "8 \<le> length B \<longrightarrow> B ! 0 = CHR 0x16 \<and> B ! Suc 0 = CHR 0x03"
  shows "run_loop (Suc fuel) lib h dnsCache \<lparr>Buffer = B, buffered = [], incoming = i\<rparr> = Some []"
proof (cases "8 \<le> length B")
  case True
  then have "B ! 0 = CHR 0x16 \<and> B ! Suc 0 = CHR 0x03"
    using assms by simp
  then show ?thesis
    using True by (simp add: Peek_def fill_def Let_def)
next
  case False
  then show ?thesis
    by (simp add: Peek_def fill_def Let_def)
qed

text \<open>
  C3. When the bytes delivered to a direction (those in the buffer when \<open>run\<close> starts,
  followed by those written while it waits) begin with \<open>0x16 0x03\<close>, \<open>run\<close> returns and
  has printed nothing, whatever the ports, the library and the bytes that follow: on
  the ports 443 and 8443 the check before the loop returns once three bytes are there,
  and otherwise the first round of the loop returns, because fewer than eight bytes are
  there or because of its own check of the first two.
\<close>

theorem C3_tls_prefix_prints_nothing:
  assumes "prefix [CHR 0x16, CHR 0x03] (delivered r0)"
  shows "run (Suc fuel) lib h dnsCache r0 = Some []"
proof -
  let ?r2 = "wait_grow 10 0 (wait_data 100 r0)"
  have d: "delivered ?r2 = delivered r0"
    by (simp add: delivered_wait_grow delivered_wait_data)
  have p: "prefix [CHR 0x16, CHR 0x03] (Buffer ?r2 @ concat (incoming ?r2))"
    using assms d by (simp add: delivered_def)
  have first: "8 \<le> length (Buffer ?r2) \<longrightarrow> Buffer ?r2 ! 0 = CHR 0x16 \<and> Buffer ?r2 ! Suc 0 = CHR 0x03"
    using prefix_two_nth [OF p] by simp
  have loop: "run_loop (Suc fuel) lib h dnsCache (?r2\<lparr>buffered := []\<rparr>) = Some []"
    using run_loop_tls [OF first, of fuel lib h dnsCache "incoming ?r2"]
    by (cases ?r2) simp
  show ?thesis
    using loop by (simp add: run_def Let_def)
qed

theorem C3_witness:
  "prefix [CHR 0x16, CHR 0x03] (delivered \<lparr>Buffer = [CHR 0x16, CHR 0x03, CHR 0x01], buffered = [], incoming = []\<rparr>)
   \<and> run (Suc 0) lib_http
        \<lparr>net_Src = ''10.0.0.5'', net_Dst = ''10.0.0.9'', transport_Src = ''51234'', transport_Dst = ''443''\<rparr>
        NewCache \<lparr>Buffer = [CHR 0x16, CHR 0x03, CHR 0x01], buffered = [], incoming = []\<rparr> = Some []
   \<and> run (Suc 0) lib_http
        \<lparr>net_Src = ''10.0.0.5'', net_Dst = ''10.0.0.9'', transport_Src = ''51234'', transport_Dst = ''8080''\<rparr>
        NewCache \<lparr>Buffer = [], buffered = [], incoming = [[CHR 0x16], [CHR 0x03, CHR 0x01] @ ''GET / HTTP/1.1'']\<rparr>
      = Some []"
proof -
  have a: "prefix [CHR 0x16, CHR 0x03] (delivered \<lparr>Buffer = [CHR 0x16, CHR 0x03, CHR 0x01], buffered = [], incoming = []\<rparr>)"
    by (simp add: delivered_def)
  have b: "prefix [CHR 0x16, CHR 0x03]
      (delivered \<lparr>Buffer = [], buffered = [], incoming = [[CHR 0x16], [CHR 0x03, CHR 0x01] @ ''GET / HTTP/1.1'']\<rparr>)"
    by (simp add: delivered_def)
  show ?thesis
    using a
      C3_tls_prefix_prints_nothing [OF a, of 0 lib_http
        "\<lparr>net_Src = ''10.0.0.5'', net_Dst = ''10.0.0.9'', transport_Src = ''51234'', transport_Dst = ''443''\<rparr>"
        NewCache]
      C3_tls_prefix_prints_nothing [OF b, of 0 lib_http
        "\<lparr>net_Src = ''10.0.0.5'', net_Dst = ''10.0.0.9'', transport_Src = ''51234'', transport_Dst = ''8080''\<rparr>"
        NewCache]
    by simp
qed

end
